theory Spec2Isabelle
  imports Complex_Main "HOL-Library.Word" "HOL-Library.Sublist"
begin

section \<open>JavaScript strings and values\<close>

text \<open>
  A JavaScript string is a sequence of 16-bit code units. String literals of the
  scripts are ASCII, so \<open>lit\<close> maps each character of an Isabelle literal to the
  code unit with the same number.
\<close>

type_synonym js_string = "16 word list"

definition lit :: "string \<Rightarrow> js_string" where
  "lit s = map of_char s"

text \<open>
  \<open>String.prototype.trim\<close> strips, at both ends, the code units that ECMA-262 calls
  WhiteSpace or LineTerminator: TAB, LF, VT, FF, CR, SPACE, NBSP, U+1680,
  U+2000..U+200A, U+2028, U+2029, U+202F, U+205F, U+3000 and U+FEFF. All of them
  are single code units.
\<close>

definition isWhiteSpace :: "16 word \<Rightarrow> bool" where
  "isWhiteSpace c =
     (c \<in> {0x09, 0x0A, 0x0B, 0x0C, 0x0D, 0x20, 0xA0, 0x1680,
            0x2028, 0x2029, 0x202F, 0x205F, 0x3000, 0xFEFF}
      \<or> (0x2000 \<le> c \<and> c \<le> 0x200A))"

definition trim :: "js_string \<Rightarrow> js_string" where
  "trim s = rev (dropWhile isWhiteSpace (rev (dropWhile isWhiteSpace s)))"

text \<open>
  The values that reach string concatenation in the scripts are strings and
  \<open>undefined\<close> (an array read out of range, a missing property). \<open>ToString\<close> is the
  conversion a template literal or \<open>+\<close> applies.
\<close>

datatype js_value = Undefined | Str js_string

fun ToString :: "js_value \<Rightarrow> js_string" where
  "ToString Undefined = lit ''undefined''"
| "ToString (Str s) = s"

section \<open>How the browser reads markup assigned to \<open>innerHTML\<close>\<close>

text \<open>
  Two of the scripts assign a string to \<open>innerHTML\<close>; the browser parses it with the
  HTML fragment parser and the elements it finds become part of the page. This
  section follows the tokenizer of the HTML Standard (section 13.2.5) on the
  part of the language that the templates of the scripts use: text, start and
  end tags, attributes without a value and attributes with a double-quoted
  value. Everything else (character references, comments, single-quoted and
  unquoted values, self-closing tags, NUL and CR) is outside the model, and the
  functions return \<open>None\<close> on it. The element that receives the markup is taken
  to be an ordinary container such as the \<open>div\<close> that the chat script creates, so
  that the fragment is parsed as body content.
\<close>

datatype html_token =
    StartTag js_string "(js_string \<times> js_string) list"
  | EndTag js_string
  | Character "16 word"

datatype tokenizer_mode =
    Data | TagOpen | EndTagOpen | TagName
  | BeforeAttributeName | AttributeName | AfterAttributeName
  | BeforeAttributeValue | AttributeValueDoubleQuoted | AfterAttributeValueQuoted

record tokenizer_state =
  mode :: tokenizer_mode
  isEndTag :: bool
  tagName :: js_string
  attributes :: "(js_string \<times> js_string) list"
  inAttribute :: bool
  attributeName :: js_string
  attributeValue :: js_string
  emitted :: "html_token list"

definition isHtmlSpace :: "16 word \<Rightarrow> bool" where
  "isHtmlSpace c = (c = 0x09 \<or> c = 0x0A \<or> c = 0x0C \<or> c = 0x20)"

definition isAsciiAlpha :: "16 word \<Rightarrow> bool" where
  "isAsciiAlpha c = ((0x41 \<le> c \<and> c \<le> 0x5A) \<or> (0x61 \<le> c \<and> c \<le> 0x7A))"

definition toAsciiLower :: "16 word \<Rightarrow> 16 word" where
  "toAsciiLower c = (if 0x41 \<le> c \<and> c \<le> 0x5A then c + 0x20 else c)"

definition finishAttribute :: "tokenizer_state \<Rightarrow> tokenizer_state" where
  "finishAttribute st =
     (if inAttribute st
      then st\<lparr>attributes :=
                 (if attributeName st \<in> set (map fst (attributes st)) then attributes st
                  else attributes st @ [(attributeName st, attributeValue st)]),
               inAttribute := False, attributeName := [], attributeValue := []\<rparr>
      else st)"

definition startAttribute :: "tokenizer_state \<Rightarrow> tokenizer_state" where
  "startAttribute st = (finishAttribute st)\<lparr>inAttribute := True, mode := AttributeName\<rparr>"

definition emitTag :: "tokenizer_state \<Rightarrow> tokenizer_state" where
  "emitTag st =
     (let st1 = finishAttribute st;
          tag = (if isEndTag st1 then EndTag (tagName st1)
                 else StartTag (tagName st1) (attributes st1))
      in st1\<lparr>emitted := emitted st1 @ [tag], mode := Data, tagName := [], attributes := []\<rparr>)"

definition dataState :: "16 word \<Rightarrow> tokenizer_state \<Rightarrow> tokenizer_state option" where
  "dataState c st =
     (if c = 0x26 then None
      else if c = 0x3C then Some (st\<lparr>mode := TagOpen\<rparr>)
      else Some (st\<lparr>emitted := emitted st @ [Character c]\<rparr>))"

definition tagNameState :: "16 word \<Rightarrow> tokenizer_state \<Rightarrow> tokenizer_state option" where
  "tagNameState c st =
     (if isHtmlSpace c then Some (st\<lparr>mode := BeforeAttributeName\<rparr>)
      else if c = 0x2F then None
      else if c = 0x3E then Some (emitTag st)
      else Some (st\<lparr>tagName := tagName st @ [toAsciiLower c]\<rparr>))"

definition tagOpenState :: "16 word \<Rightarrow> tokenizer_state \<Rightarrow> tokenizer_state option" where
  "tagOpenState c st =
     (if c = 0x21 \<or> c = 0x3F then None
      else if c = 0x2F then Some (st\<lparr>mode := EndTagOpen\<rparr>)
      else if isAsciiAlpha c
      then tagNameState c (st\<lparr>mode := TagName, isEndTag := False, tagName := [], attributes := []\<rparr>)
      else dataState c (st\<lparr>mode := Data, emitted := emitted st @ [Character 0x3C]\<rparr>))"

definition endTagOpenState :: "16 word \<Rightarrow> tokenizer_state \<Rightarrow> tokenizer_state option" where
  "endTagOpenState c st =
     (if isAsciiAlpha c
      then tagNameState c (st\<lparr>mode := TagName, isEndTag := True, tagName := [], attributes := []\<rparr>)
      else if c = 0x3E then Some (st\<lparr>mode := Data\<rparr>)
      else None)"

definition afterAttributeNameState :: "16 word \<Rightarrow> tokenizer_state \<Rightarrow> tokenizer_state option" where
  "afterAttributeNameState c st =
     (if isHtmlSpace c then Some (st\<lparr>mode := AfterAttributeName\<rparr>)
      else if c = 0x2F then None
      else if c = 0x3D then Some (st\<lparr>mode := BeforeAttributeValue\<rparr>)
      else if c = 0x3E then Some (emitTag st)
      else Some ((startAttribute st)\<lparr>attributeName := [toAsciiLower c]\<rparr>))"

definition attributeNameState :: "16 word \<Rightarrow> tokenizer_state \<Rightarrow> tokenizer_state option" where
  "attributeNameState c st =
     (if isHtmlSpace c \<or> c = 0x2F \<or> c = 0x3E then afterAttributeNameState c st
      else if c = 0x3D then Some (st\<lparr>mode := BeforeAttributeValue\<rparr>)
      else Some (st\<lparr>attributeName := attributeName st @ [toAsciiLower c]\<rparr>))"

definition beforeAttributeNameState :: "16 word \<Rightarrow> tokenizer_state \<Rightarrow> tokenizer_state option" where
  "beforeAttributeNameState c st =
     (if isHtmlSpace c then Some (st\<lparr>mode := BeforeAttributeName\<rparr>)
      else if c = 0x2F \<or> c = 0x3E then afterAttributeNameState c st
      else if c = 0x3D then Some ((startAttribute st)\<lparr>attributeName := [c]\<rparr>)
      else attributeNameState c (startAttribute st))"

definition beforeAttributeValueState :: "16 word \<Rightarrow> tokenizer_state \<Rightarrow> tokenizer_state option" where
  "beforeAttributeValueState c st =
     (if isHtmlSpace c then Some st
      else if c = 0x22 then Some (st\<lparr>mode := AttributeValueDoubleQuoted\<rparr>)
      else if c = 0x3E then Some (emitTag st)
      else None)"

definition attributeValueDoubleQuotedState ::
  "16 word \<Rightarrow> tokenizer_state \<Rightarrow> tokenizer_state option" where
  "attributeValueDoubleQuotedState c st =
     (if c = 0x22 then Some (st\<lparr>mode := AfterAttributeValueQuoted\<rparr>)
      else if c = 0x26 then None
      else Some (st\<lparr>attributeValue := attributeValue st @ [c]\<rparr>))"

definition afterAttributeValueQuotedState ::
  "16 word \<Rightarrow> tokenizer_state \<Rightarrow> tokenizer_state option" where
  "afterAttributeValueQuotedState c st =
     (if isHtmlSpace c then Some (st\<lparr>mode := BeforeAttributeName\<rparr>)
      else if c = 0x2F then None
      else if c = 0x3E then Some (emitTag st)
      else beforeAttributeNameState c st)"

definition tokenizerStep :: "16 word \<Rightarrow> tokenizer_state \<Rightarrow> tokenizer_state option" where
  "tokenizerStep c st =
     (if c = 0x00 \<or> c = 0x0D then None
      else case mode st of
        Data \<Rightarrow> dataState c st
      | TagOpen \<Rightarrow> tagOpenState c st
      | EndTagOpen \<Rightarrow> endTagOpenState c st
      | TagName \<Rightarrow> tagNameState c st
      | BeforeAttributeName \<Rightarrow> beforeAttributeNameState c st
      | AttributeName \<Rightarrow> attributeNameState c st
      | AfterAttributeName \<Rightarrow> afterAttributeNameState c st
      | BeforeAttributeValue \<Rightarrow> beforeAttributeValueState c st
      | AttributeValueDoubleQuoted \<Rightarrow> attributeValueDoubleQuotedState c st
      | AfterAttributeValueQuoted \<Rightarrow> afterAttributeValueQuotedState c st)"

fun runTokenizer :: "js_string \<Rightarrow> tokenizer_state \<Rightarrow> tokenizer_state option" where
  "runTokenizer [] st = Some st"
| "runTokenizer (c # cs) st =
     (case tokenizerStep c st of None \<Rightarrow> None | Some st1 \<Rightarrow> runTokenizer cs st1)"

definition endOfInput :: "tokenizer_state \<Rightarrow> html_token list" where
  "endOfInput st =
     (case mode st of
        Data \<Rightarrow> emitted st
      | TagOpen \<Rightarrow> emitted st @ [Character 0x3C]
      | EndTagOpen \<Rightarrow> emitted st @ [Character 0x3C, Character 0x2F]
      | _ \<Rightarrow> emitted st)"

definition tokenize :: "js_string \<Rightarrow> html_token list option" where
  "tokenize markup =
     map_option endOfInput
       (runTokenizer markup
          \<lparr>mode = Data, isEndTag = False, tagName = [], attributes = [],
            inAttribute = False, attributeName = [], attributeValue = [], emitted = []\<rparr>)"

text \<open>
  The tokens map one to one to the nodes of the page when every tag belongs to an
  element that the tree builder merely inserts (the elements of the templates,
  and \<open>b\<close> and \<open>i\<close>), every end tag closes the element opened last, no element is
  nested in an element of the same name, and nothing is left open. Other token
  sequences are outside the model.
\<close>

definition plainElements :: "js_string list" where
  "plainElements = [lit ''p'', lit ''a'', lit ''strong'', lit ''small'', lit ''b'', lit ''i'']"

fun properlyNested :: "html_token list \<Rightarrow> js_string list \<Rightarrow> bool" where
  "properlyNested [] openElements = (openElements = [])"
| "properlyNested (StartTag name attrs # ts) openElements =
     (name \<in> set plainElements \<and> name \<notin> set openElements
      \<and> properlyNested ts (name # openElements))"
| "properlyNested (EndTag name # ts) openElements =
     (case openElements of
        [] \<Rightarrow> False
      | current # rest \<Rightarrow> name = current \<and> properlyNested ts rest)"
| "properlyNested (Character c # ts) openElements = properlyNested ts openElements"

definition parseFragment :: "js_string \<Rightarrow> html_token list option" where
  "parseFragment markup =
     (case tokenize markup of
        None \<Rightarrow> None
      | Some ts \<Rightarrow> if properlyNested ts [] then Some ts else None)"

text \<open>The text a parsed fragment shows: its character tokens, in order.\<close>

fun textContent :: "html_token list \<Rightarrow> js_string" where
  "textContent [] = []"
| "textContent (Character c # ts) = c # textContent ts"
| "textContent (StartTag name attrs # ts) = textContent ts"
| "textContent (EndTag name # ts) = textContent ts"

text \<open>The elements of a parsed fragment, in document order, with their attributes.\<close>

fun elements :: "html_token list \<Rightarrow> (js_string \<times> (js_string \<times> js_string) list) list" where
  "elements [] = []"
| "elements (StartTag name attrs # ts) = (name, attrs) # elements ts"
| "elements (EndTag name # ts) = elements ts"
| "elements (Character c # ts) = elements ts"

text \<open>The \<open>href\<close> attributes of the links (\<open>a\<close> elements) of a parsed fragment.\<close>

definition linkTargets :: "html_token list \<Rightarrow> js_string list" where
  "linkTargets ts =
     List.map_filter
       (\<lambda>(name, attrs). if name = lit ''a'' then map_of attrs (lit ''href'') else None)
       (elements ts)"

text \<open>
  The \<open>onclick\<close> attributes of the elements of a parsed fragment: the bodies of the
  handlers the browser runs when the user clicks the element.
\<close>

definition clickHandlers :: "html_token list \<Rightarrow> js_string list" where
  "clickHandlers ts =
     List.map_filter (\<lambda>(name, attrs). map_of attrs (lit ''onclick'')) (elements ts)"

section \<open>The chat widget (script.js)\<close>

text \<open>An entry of \<open>conversationHistory\<close>: the object \<open>{ role, message }\<close>.\<close>

record history_entry =
  role :: js_string
  message :: js_value

text \<open>
  A node appended to a message block: an element with its tag and \<open>textContent\<close>,
  or a text node.
\<close>

datatype dom_node = Element js_string js_string | TextNode js_string

text \<open>
  The \<open>div\<close> built by \<open>appendMessageToDisplay\<close>: the five style properties it sets and
  what it is filled with. In script.js that is the list of child nodes appended
  to it; in the second copy of the script it is the string assigned to
  \<open>innerHTML\<close>.
\<close>

record 'c message_block =
  marginBottom :: js_string
  padding :: js_string
  borderRadius :: js_string
  backgroundColor :: js_string
  textAlign :: js_string
  blockContent :: 'c

text \<open>
  The page state the script reads and writes: the module variable
  \<open>conversationHistory\<close>, the blocks the script has appended to \<open>displayArea\<close>,
  \<open>inputField.value\<close>, and the
  callbacks handed to \<open>setTimeout\<close> that have not run yet. Every callback has the
  same delay of 500 ms, so they run in the order they were scheduled; each is
  represented by the \<open>userText\<close> it captured. Scroll offsets are layout and are
  not represented.
\<close>

record 'c chat_state =
  conversationHistory :: "history_entry list"
  displayArea :: "'c message_block list"
  inputValue :: js_string
  timers :: "js_string list"

text \<open>
  \<open>appendMessageToDisplay(sender, content)\<close>; \<open>timestamp\<close> is what
  \<open>new Date().toLocaleTimeString()\<close> returns at the call.
\<close>

definition appendMessageToDisplay ::
  "js_string \<Rightarrow> js_string \<Rightarrow> js_value \<Rightarrow> dom_node list chat_state \<Rightarrow> dom_node list chat_state"
where
  "appendMessageToDisplay timestamp sender content s =
     (let senderLabel = Element (lit ''strong'') (sender @ lit '':'');
          messageText = TextNode (lit '' '' @ ToString content @ lit '' '');
          timeStamp = Element (lit ''small'') (lit ''('' @ timestamp @ lit '')'');
          messageBlock =
            \<lparr> marginBottom = lit ''10px'',
              padding = lit ''8px'',
              borderRadius = lit ''4px'',
              backgroundColor =
                (if sender = lit ''user'' then lit ''#e3f2fd'' else lit ''#f1f8e9''),
              textAlign =
                (if sender = lit ''user'' then lit ''right'' else lit ''left''),
              blockContent = [senderLabel, messageText, timeStamp] \<rparr>
      in s\<lparr>displayArea := displayArea s @ [messageBlock]\<rparr>)"

text \<open>
  \<open>generateBotResponse(userMessage)\<close>. The function is the same text in both copies
  of the script. \<open>r\<close> is the number \<open>Math.random()\<close> returns; multiplying by 4 is
  exact in binary floating point, so the real product is the computed one. An
  array read outside \<open>0..3\<close> yields \<open>undefined\<close>.
\<close>

definition responses :: "js_string \<Rightarrow> js_string list" where
  \<open>responses userMessage =
     [lit ''I received your message: "'' @ userMessage @ lit ''"'',
      lit ''That's interesting! You said: "'' @ userMessage @ lit ''"'',
      lit ''Processing your input: "'' @ userMessage @ lit ''"'',
      lit ''Thank you for sharing: "'' @ userMessage @ lit ''"'']\<close>

definition generateBotResponse :: "js_string \<Rightarrow> real \<Rightarrow> js_value" where
  "generateBotResponse userMessage r =
     (let i = \<lfloor>r * real (length (responses userMessage))\<rfloor>
      in if 0 \<le> i \<and> i < int (length (responses userMessage))
         then Str (responses userMessage ! nat i)
         else Undefined)"

text \<open>The arrow function handed to \<open>setTimeout\<close>; \<open>userText\<close> is the captured constant.\<close>

definition botReplyCallback ::
  "js_string \<Rightarrow> real \<Rightarrow> js_string \<Rightarrow> dom_node list chat_state \<Rightarrow> dom_node list chat_state"
where
  "botReplyCallback userText r timestamp s =
     (let botReply = generateBotResponse userText r;
          s1 = s\<lparr>conversationHistory :=
                   conversationHistory s @ [\<lparr>role = lit ''bot'', message = botReply\<rparr>]\<rparr>
      in appendMessageToDisplay timestamp (lit ''bot'') botReply s1)"

text \<open>\<open>handleUserMessage()\<close>; \<open>timestamp\<close> is the clock reading of its render call.\<close>

definition handleUserMessage ::
  "js_string \<Rightarrow> dom_node list chat_state \<Rightarrow> dom_node list chat_state"
where
  "handleUserMessage timestamp s =
     (let userText = trim (inputValue s)
      in if userText = [] then s
         else
           (let s1 = s\<lparr>conversationHistory :=
                        conversationHistory s @ [\<lparr>role = lit ''user'', message = Str userText\<rparr>]\<rparr>;
                s2 = appendMessageToDisplay timestamp (lit ''user'') (Str userText) s1;
                s3 = s2\<lparr>inputValue := []\<rparr>
            in s3\<lparr>timers := timers s3 @ [userText]\<rparr>))"

text \<open>
  What happens on the page, one event at a time: the user edits the input field,
  clicks the send button, presses a key in the field, the oldest pending timer
  fires, or the user clicks in the message block of the given index (counted
  from 0), on the element that carries a click handler if the block has one.
  The clock reading and the random number of an event are the ones its handler
  obtains.
\<close>

datatype event =
    InputEdited js_string
  | SendClicked js_string
  | KeyPressed js_string js_string
  | TimerFired real js_string
  | BlockClicked nat js_string

text \<open>
  script.js registers no listener on the display area, and the blocks it builds
  hold a \<open>strong\<close> element, a text node and a \<open>small\<close> element without handlers: a
  click on a block runs no code.
\<close>

fun step :: "event \<Rightarrow> dom_node list chat_state \<Rightarrow> dom_node list chat_state" where
  "step (InputEdited v) s = s\<lparr>inputValue := v\<rparr>"
| "step (SendClicked timestamp) s = handleUserMessage timestamp s"
| "step (KeyPressed key timestamp) s =
     (if key = lit ''Enter'' then handleUserMessage timestamp s else s)"
| "step (TimerFired r timestamp) s =
     (case timers s of
        [] \<Rightarrow> s
      | userText # rest \<Rightarrow> botReplyCallback userText r timestamp (s\<lparr>timers := rest\<rparr>))"
| "step (BlockClicked i timestamp) s = s"

definition run :: "event list \<Rightarrow> dom_node list chat_state \<Rightarrow> dom_node list chat_state" where
  "run es s = fold step es s"

text \<open>
  Loading the script: the log is the empty array, no block has been appended, no
  timer is pending, the field holds whatever the page gave it, and the last
  statement renders the welcome message.
\<close>

definition welcomeText :: js_string where
  "welcomeText = lit ''Welcome to the Chatbot Test Application! Send a message to get started.''"

definition initial :: "js_string \<Rightarrow> js_string \<Rightarrow> dom_node list chat_state" where
  "initial v timestamp =
     appendMessageToDisplay timestamp (lit ''bot'') (Str welcomeText)
       \<lparr>conversationHistory = [], displayArea = [], inputValue = v, timers = []\<rparr>"

section \<open>The second copy of the chat widget (unnamed/part_000)\<close>

text \<open>
  The file differs from script.js in \<open>appendMessageToDisplay\<close> alone, which assigns
  one template string to \<open>innerHTML\<close> instead of appending three nodes. The block
  keeps the assigned markup; the browser parses it, so tags in the sender, the
  content or the time stamp become elements of the page.
\<close>

definition appendMessageToDisplay_html ::
  "js_string \<Rightarrow> js_string \<Rightarrow> js_value \<Rightarrow> js_string chat_state \<Rightarrow> js_string chat_state"
where
  "appendMessageToDisplay_html timestamp sender content s =
     (let messageBlock =
            \<lparr> marginBottom = lit ''10px'',
              padding = lit ''8px'',
              borderRadius = lit ''4px'',
              backgroundColor =
                (if sender = lit ''user'' then lit ''#e3f2fd'' else lit ''#f1f8e9''),
              textAlign =
                (if sender = lit ''user'' then lit ''right'' else lit ''left''),
              blockContent =
                lit ''<strong>'' @ sender @ lit '':</strong> '' @ ToString content
                  @ lit '' <small>('' @ timestamp @ lit '')</small>'' \<rparr>
      in s\<lparr>displayArea := displayArea s @ [messageBlock]\<rparr>)"

definition botReplyCallback_html ::
  "js_string \<Rightarrow> real \<Rightarrow> js_string \<Rightarrow> js_string chat_state \<Rightarrow> js_string chat_state"
where
  "botReplyCallback_html userText r timestamp s =
     (let botReply = generateBotResponse userText r;
          s1 = s\<lparr>conversationHistory :=
                   conversationHistory s @ [\<lparr>role = lit ''bot'', message = botReply\<rparr>]\<rparr>
      in appendMessageToDisplay_html timestamp (lit ''bot'') botReply s1)"

definition handleUserMessage_html ::
  "js_string \<Rightarrow> js_string chat_state \<Rightarrow> js_string chat_state"
where
  "handleUserMessage_html timestamp s =
     (let userText = trim (inputValue s)
      in if userText = [] then s
         else
           (let s1 = s\<lparr>conversationHistory :=
                        conversationHistory s @ [\<lparr>role = lit ''user'', message = Str userText\<rparr>]\<rparr>;
                s2 = appendMessageToDisplay_html timestamp (lit ''user'') (Str userText) s1;
                s3 = s2\<lparr>inputValue := []\<rparr>
            in s3\<lparr>timers := timers s3 @ [userText]\<rparr>))"

text \<open>
  The body of an \<open>onclick\<close> attribute is JavaScript. The model evaluates one
  statement, the one that clicks the send button, on which line 58 registers
  \<open>handleUserMessage\<close>; every other body is outside the model.
\<close>

definition clickSendStatement :: js_string where
  "clickSendStatement = lit ''document.getElementById('sendMessageBtn').click()''"

definition runHandler ::
  "js_string \<Rightarrow> js_string \<Rightarrow> js_string chat_state \<Rightarrow> js_string chat_state option"
where
  "runHandler handlerBody timestamp s =
     (if handlerBody = clickSendStatement then Some (handleUserMessage_html timestamp s)
      else None)"

text \<open>
  A click on a block: the block's markup was parsed when it was assigned. With no
  \<open>onclick\<close> attribute in it the click runs no code; with one, the click on that
  element runs its body. Blocks with several handlers are outside the model.
\<close>

definition blockClicked ::
  "nat \<Rightarrow> js_string \<Rightarrow> js_string chat_state \<Rightarrow> js_string chat_state option"
where
  "blockClicked i timestamp s =
     (if i < length (displayArea s)
      then (case parseFragment (blockContent (displayArea s ! i)) of
              None \<Rightarrow> None
            | Some ts \<Rightarrow>
                (case clickHandlers ts of
                   [] \<Rightarrow> Some s
                 | [handlerBody] \<Rightarrow> runHandler handlerBody timestamp s
                 | _ \<Rightarrow> None))
      else Some s)"

fun step_html :: "event \<Rightarrow> js_string chat_state \<Rightarrow> js_string chat_state option" where
  "step_html (InputEdited v) s = Some (s\<lparr>inputValue := v\<rparr>)"
| "step_html (SendClicked timestamp) s = Some (handleUserMessage_html timestamp s)"
| "step_html (KeyPressed key timestamp) s =
     Some (if key = lit ''Enter'' then handleUserMessage_html timestamp s else s)"
| "step_html (TimerFired r timestamp) s =
     Some (case timers s of
             [] \<Rightarrow> s
           | userText # rest \<Rightarrow> botReplyCallback_html userText r timestamp (s\<lparr>timers := rest\<rparr>))"
| "step_html (BlockClicked i timestamp) s = blockClicked i timestamp s"

fun run_html :: "event list \<Rightarrow> js_string chat_state \<Rightarrow> js_string chat_state option" where
  "run_html [] s = Some s"
| "run_html (e # es) s =
     (case step_html e s of None \<Rightarrow> None | Some s1 \<Rightarrow> run_html es s1)"

definition initial_html :: "js_string \<Rightarrow> js_string \<Rightarrow> js_string chat_state" where
  "initial_html v timestamp =
     appendMessageToDisplay_html timestamp (lit ''bot'') (Str welcomeText)
       \<lparr>conversationHistory = [], displayArea = [], inputValue = v, timers = []\<rparr>"

section \<open>The report form (unnamed/part_001)\<close>

text \<open>
  \<open>JSON.stringify\<close> on an object whose properties are strings, as ECMA-262
  defines it: each value is quoted by \<open>QuoteJSONString\<close>, which escapes the double
  quote, the backslash, the control characters below U+0020 and surrogates that
  are not part of a pair.
\<close>

definition hexDigit :: "16 word \<Rightarrow> 16 word" where
  "hexDigit d = (if d < 10 then 0x30 + d else 0x57 + d)"

definition UnicodeEscape :: "16 word \<Rightarrow> js_string" where
  "UnicodeEscape c =
     [0x5C, 0x75,
      hexDigit (drop_bit 12 c),
      hexDigit (take_bit 4 (drop_bit 8 c)),
      hexDigit (take_bit 4 (drop_bit 4 c)),
      hexDigit (take_bit 4 c)]"

definition isLeadingSurrogate :: "16 word \<Rightarrow> bool" where
  "isLeadingSurrogate c = (0xD800 \<le> c \<and> c \<le> 0xDBFF)"

definition isTrailingSurrogate :: "16 word \<Rightarrow> bool" where
  "isTrailingSurrogate c = (0xDC00 \<le> c \<and> c \<le> 0xDFFF)"

definition quoteUnit :: "16 word \<Rightarrow> js_string" where
  "quoteUnit c =
     (if c = 0x08 then [0x5C, 0x62]
      else if c = 0x09 then [0x5C, 0x74]
      else if c = 0x0A then [0x5C, 0x6E]
      else if c = 0x0C then [0x5C, 0x66]
      else if c = 0x0D then [0x5C, 0x72]
      else if c = 0x22 then [0x5C, 0x22]
      else if c = 0x5C then [0x5C, 0x5C]
      else if c < 0x20 \<or> isLeadingSurrogate c \<or> isTrailingSurrogate c then UnicodeEscape c
      else [c])"

fun quoteUnits :: "js_string \<Rightarrow> js_string" where
  "quoteUnits [] = []"
| "quoteUnits [c] = quoteUnit c"
| "quoteUnits (c # d # cs) =
     (if isLeadingSurrogate c \<and> isTrailingSurrogate d then c # d # quoteUnits cs
      else quoteUnit c @ quoteUnits (d # cs))"

definition QuoteJSONString :: "js_string \<Rightarrow> js_string" where
  "QuoteJSONString v = [0x22] @ quoteUnits v @ [0x22]"

fun stringifyProperties :: "(js_string \<times> js_string) list \<Rightarrow> js_string" where
  "stringifyProperties [] = []"
| "stringifyProperties [(k, v)] = QuoteJSONString k @ lit '':'' @ QuoteJSONString v"
| "stringifyProperties ((k, v) # kv # kvs) =
     QuoteJSONString k @ lit '':'' @ QuoteJSONString v @ lit '','' @ stringifyProperties (kv # kvs)"

definition JSON_stringify :: "(js_string \<times> js_string) list \<Rightarrow> js_string" where
  "JSON_stringify obj = lit ''{'' @ stringifyProperties obj @ lit ''}''"

text \<open>
  The argument of \<open>fetch\<close>: the address and the members \<open>method\<close>, \<open>headers\<close> and
  \<open>body\<close> of the options object.
\<close>

record http_request =
  url :: js_string
  http_method :: js_string
  headers :: "(js_string \<times> js_string) list"
  body :: js_string

text \<open>
  What \<open>response.json()\<close> leads to. The promise is rejected (the body is not JSON),
  or the body is \<open>null\<close> and reading a property of it raises a TypeError, or
  property reads succeed and give the two values the template interpolates
  (\<open>undefined\<close> when the property is missing). Each failure carries the
  \<open>message\<close> of its error object, which the engine chooses. Property values that
  are not strings are not represented.
\<close>

datatype response_json =
    JsonRejected js_string
  | JsonNull js_string
  | JsonData js_value js_value

record http_response =
  status :: nat
  statusText :: js_string
  json :: response_json

text \<open>\<open>response.ok\<close>: the status is in the range 200..299.\<close>

definition ok :: "http_response \<Rightarrow> bool" where
  "ok response = (200 \<le> status response \<and> status response \<le> 299)"

text \<open>
  What \<open>await fetch(...)\<close> leads to: the promise is rejected (a network failure)
  with an error of the given \<open>message\<close>, or it resolves to a response.
\<close>

datatype fetch_result = FetchRejected js_string | FetchResolved http_response

text \<open>
  The part of the page the handler reads and writes: \<open>statusMessage.textContent\<close>,
  \<open>result.innerHTML\<close>, \<open>button.disabled\<close>, \<open>questionBox.value\<close>, the alerts shown so
  far and the requests handed to \<open>fetch\<close> so far.
\<close>

record report_state =
  statusMessage :: js_string
  result :: js_string
  buttonDisabled :: bool
  questionBox :: js_string
  alerts :: "js_string list"
  requests :: "http_request list"

definition API_ENDPOINT :: js_string where
  "API_ENDPOINT = lit ''https://apim-multiagent-research.azure-api.net/research''"

text \<open>The handler from the validated question up to and including the call of \<open>fetch\<close>.\<close>

definition sendRequest :: "js_string \<Rightarrow> report_state \<Rightarrow> report_state" where
  "sendRequest researchQuestion s =
     (let s1 = s\<lparr>statusMessage := lit ''Generating report, please wait...''\<rparr>;
          s2 = s1\<lparr>result := []\<rparr>;
          s3 = s2\<lparr>buttonDisabled := True\<rparr>
      in s3\<lparr>requests := requests s3 @
              [\<lparr> url = API_ENDPOINT,
                 http_method = lit ''POST'',
                 headers = [(lit ''Content-Type'', lit ''application/json'')],
                 body = JSON_stringify [(lit ''question'', researchQuestion)] \<rparr>]\<rparr>)"

text \<open>The template assigned to \<open>result.innerHTML\<close>, line breaks and indentation included.\<close>

definition resultMarkup :: "js_value \<Rightarrow> js_value \<Rightarrow> js_string" where
  \<open>resultMarkup question document_url =
     [0x0A]
       @ lit ''            <p><strong>Research Question:</strong> ''
       @ ToString question
       @ lit ''</p>''
       @ [0x0A]
       @ lit ''            <p><strong>Download Report:</strong> ''
       @ [0x0A]
       @ lit ''               <a href="''
       @ ToString document_url
       @ lit ''" target="_blank">Download</a></p>''\<close>

text \<open>
  The rest of the \<open>try\<close> block, from the point where \<open>fetch\<close> has settled: the state
  it reaches and the message of the error it throws, if it throws.
\<close>

definition tryBlock :: "fetch_result \<Rightarrow> report_state \<Rightarrow> report_state \<times> js_string option" where
  "tryBlock outcome s =
     (case outcome of
        FetchRejected msg \<Rightarrow> (s, Some msg)
      | FetchResolved response \<Rightarrow>
          if \<not> ok response then (s, Some (lit ''Error: '' @ statusText response))
          else
            (case json response of
               JsonRejected msg \<Rightarrow> (s, Some msg)
             | JsonNull msg \<Rightarrow>
                 (s\<lparr>statusMessage := lit ''Report generated successfully!''\<rparr>, Some msg)
             | JsonData question document_url \<Rightarrow>
                 (let s1 = s\<lparr>statusMessage := lit ''Report generated successfully!''\<rparr>
                  in (s1\<lparr>result := resultMarkup question document_url\<rparr>, None))))"

text \<open>\<open>try\<close>, \<open>catch\<close> and \<open>finally\<close> once \<open>fetch\<close> has settled.\<close>

definition settle :: "fetch_result \<Rightarrow> report_state \<Rightarrow> report_state" where
  "settle outcome s =
     (let (s1, thrown) = tryBlock outcome s;
          s2 = (case thrown of
                  None \<Rightarrow> s1
                | Some msg \<Rightarrow> s1\<lparr>statusMessage := lit ''Error: '' @ msg\<rparr>)
      in s2\<lparr>buttonDisabled := False\<rparr>)"

text \<open>
  The click listener of the button (the specification's \<open>submitQuestion\<close>);
  \<open>outcome\<close> is how the request it makes, if it makes one, settles.
\<close>

definition clickHandler :: "fetch_result \<Rightarrow> report_state \<Rightarrow> report_state" where
  "clickHandler outcome s =
     (let researchQuestion = trim (questionBox s)
      in if researchQuestion = []
         then s\<lparr>alerts := alerts s @ [lit ''Please enter a research question.'']\<rparr>
         else settle outcome (sendRequest researchQuestion s))"

section \<open>Properties of the chat widget\<close>

lemma list_all_dropWhile: "list_all P (dropWhile P xs) \<longleftrightarrow> list_all P xs"
  by (induction xs) auto

lemma trim_Nil_iff: "trim v = [] \<longleftrightarrow> list_all isWhiteSpace v"
proof -
  have "trim v = [] \<longleftrightarrow> list_all isWhiteSpace (dropWhile isWhiteSpace v)"
    by (simp add: trim_def list_all_iff)
  then show ?thesis
    by (simp add: list_all_dropWhile)
qed

lemma appendMessageToDisplay_frame:
  "conversationHistory (appendMessageToDisplay t sender c s) = conversationHistory s"
  "inputValue (appendMessageToDisplay t sender c s) = inputValue s"
  "timers (appendMessageToDisplay t sender c s) = timers s"
  "length (displayArea (appendMessageToDisplay t sender c s)) = Suc (length (displayArea s))"
  by (simp_all add: appendMessageToDisplay_def Let_def)

lemma handleUserMessage_history:
  "conversationHistory (handleUserMessage t s) =
     (if trim (inputValue s) = [] then conversationHistory s
      else conversationHistory s @ [\<lparr>role = lit ''user'', message = Str (trim (inputValue s))\<rparr>])"
  by (simp add: handleUserMessage_def Let_def appendMessageToDisplay_frame)


lemma handleUserMessage_inputValue:
  "inputValue (handleUserMessage t s) =
     (if trim (inputValue s) = [] then inputValue s else [])"
  by (simp add: handleUserMessage_def Let_def appendMessageToDisplay_frame)

lemma handleUserMessage_display_length:
  "length (displayArea (handleUserMessage t s)) =
     (if trim (inputValue s) = [] then length (displayArea s) else Suc (length (displayArea s)))"
  by (simp add: handleUserMessage_def Let_def appendMessageToDisplay_frame)

lemma botReplyCallback_history:
  "conversationHistory (botReplyCallback u r t s) =
     conversationHistory s @ [\<lparr>role = lit ''bot'', message = generateBotResponse u r\<rparr>]"
  by (simp add: botReplyCallback_def Let_def appendMessageToDisplay_frame)

lemma botReplyCallback_frame:
  "timers (botReplyCallback u r t s) = timers s"
  "inputValue (botReplyCallback u r t s) = inputValue s"
  "length (displayArea (botReplyCallback u r t s)) = Suc (length (displayArea s))"
  by (simp_all add: botReplyCallback_def Let_def appendMessageToDisplay_frame)

text \<open>
  C4. When the input field holds only white space (or nothing), \<open>handleUserMessage\<close>
  leaves the conversation log as it was, appends no block to the display area and
  schedules no reply.
\<close>

theorem blank_input_is_ignored:
  "list_all isWhiteSpace (inputValue s) \<Longrightarrow>
     conversationHistory (handleUserMessage t s) = conversationHistory s
     \<and> displayArea (handleUserMessage t s) = displayArea s
     \<and> timers (handleUserMessage t s) = timers s"
  by (simp add: handleUserMessage_def trim_Nil_iff)

theorem blank_input_is_ignored_witness:
  "list_all isWhiteSpace (inputValue (initial [0x20, 0x09, 0x3000] (lit ''9:00:00 AM'')))
   \<and> conversationHistory
        (handleUserMessage (lit ''9:00:05 AM'') (initial [0x20, 0x09, 0x3000] (lit ''9:00:00 AM''))) = []
   \<and> length (displayArea
        (handleUserMessage (lit ''9:00:05 AM'') (initial [0x20, 0x09, 0x3000] (lit ''9:00:00 AM'')))) = 1
   \<and> timers
        (handleUserMessage (lit ''9:00:05 AM'') (initial [0x20, 0x09, 0x3000] (lit ''9:00:00 AM''))) = []"
  using blank_input_is_ignored [of "initial [0x20, 0x09, 0x3000] (lit ''9:00:00 AM'')" "lit ''9:00:05 AM''"]
  by (simp add: initial_def appendMessageToDisplay_def isWhiteSpace_def)



lemma responses_length: "length (responses u) = 4"
  by (simp add: responses_def)

lemma responses_quote:
  \<open>i < 4 \<Longrightarrow> sublist (lit ''"'' @ u @ lit ''"'') (responses u ! i)\<close>
proof -
  assume "i < 4"
  then consider "i = 0" | "i = 1" | "i = 2" | "i = 3" by linarith
  then show ?thesis
  proof cases
    case 1
    have "sublist (lit [CHR 0x22] @ u @ lit [CHR 0x22]) ((lit ''I received your message: '' ) @ (lit [CHR 0x22] @ u @ lit [CHR 0x22]) @ [])"
      by (rule sublist_appendI)
    then show ?thesis using 1 by (simp add: responses_def lit_def)
  next
    case 2
    have "sublist (lit [CHR 0x22] @ u @ lit [CHR 0x22]) ((lit ''That's interesting! You said: '' ) @ (lit [CHR 0x22] @ u @ lit [CHR 0x22]) @ [])"
      by (rule sublist_appendI)
    then show ?thesis using 2 by (simp add: responses_def lit_def)
  next
    case 3
    have "sublist (lit [CHR 0x22] @ u @ lit [CHR 0x22]) ((lit ''Processing your input: '' ) @ (lit [CHR 0x22] @ u @ lit [CHR 0x22]) @ [])"
      by (rule sublist_appendI)
    then show ?thesis using 3 by (simp add: responses_def lit_def)
  next
    case 4
    have "sublist (lit [CHR 0x22] @ u @ lit [CHR 0x22]) ((lit ''Thank you for sharing: '' ) @ (lit [CHR 0x22] @ u @ lit [CHR 0x22]) @ [])"
      by (rule sublist_appendI)
    then show ?thesis using 4 by (simp add: responses_def lit_def)
  qed
qed

lemma random_index_in_range:
  assumes "0 \<le> r" "r < 1"
  shows "0 \<le> \<lfloor>r * 4\<rfloor> \<and> \<lfloor>r * 4\<rfloor> < 4"
proof -
  have "0 \<le> r * 4" using assms by simp
  moreover have "r * 4 < 4" using assms by simp
  ultimately show ?thesis by (simp add: floor_less_iff)
qed

text \<open>
  C5. Whatever the user text and whichever of the four templates the random
  number selects, the reply is a string that contains the user text, unchanged,
  between two double quotes. A random number in the range of \<open>Math.random\<close>
  always selects one of the four.
\<close>

theorem bot_reply_quotes_user_text:
  assumes "0 \<le> r" and "r < 1"
  shows \<open>(\<forall>i<4. sublist (lit ''"'' @ userMessage @ lit ''"'') (responses userMessage ! i))
       \<and> (\<exists>i<4. generateBotResponse userMessage r = Str (responses userMessage ! i))\<close>
proof -
  let ?i = "\<lfloor>r * 4\<rfloor>"
  have rng: "0 \<le> ?i \<and> ?i < 4" using assms by (rule random_index_in_range)
  then have "generateBotResponse userMessage r = Str (responses userMessage ! nat ?i)"
    by (simp add: generateBotResponse_def responses_length)
  moreover have "nat ?i < 4" using rng by linarith
  ultimately have "\<exists>i<4. generateBotResponse userMessage r = Str (responses userMessage ! i)"
    by blast
  then show ?thesis by (simp add: responses_quote)
qed

theorem bot_reply_quotes_user_text_witness:
  \<open>(0::real) \<le> 1/2 \<and> (1/2::real) < 1
   \<and> sublist (lit ''"'' @ lit ''hi'' @ lit ''"'') (responses (lit ''hi'') ! 0)
   \<and> sublist (lit ''"'' @ lit ''hi'' @ lit ''"'') (responses (lit ''hi'') ! 1)
   \<and> sublist (lit ''"'' @ lit ''hi'' @ lit ''"'') (responses (lit ''hi'') ! 2)
   \<and> sublist (lit ''"'' @ lit ''hi'' @ lit ''"'') (responses (lit ''hi'') ! 3)
   \<and> generateBotResponse (lit ''hi'') (1/2) = Str (lit ''Processing your input: "hi"'')\<close>
proof -
  have a: "(0::real) \<le> 1/2" and b: "(1/2::real) < 1"
    by simp_all
  note th = bot_reply_quotes_user_text [OF a b, of "lit ''hi''"]
  from th have q: \<open>\<forall>i<4. sublist (lit ''"'' @ lit ''hi'' @ lit ''"'') (responses (lit ''hi'') ! i)\<close>
    by (rule conjunct1)
  have g: \<open>generateBotResponse (lit ''hi'') (1/2) = Str (lit ''Processing your input: "hi"'')\<close>
    by (simp add: generateBotResponse_def responses_def lit_def)
  from q have
    \<open>sublist (lit ''"'' @ lit ''hi'' @ lit ''"'') (responses (lit ''hi'') ! 0)\<close>
    \<open>sublist (lit ''"'' @ lit ''hi'' @ lit ''"'') (responses (lit ''hi'') ! 1)\<close>
    \<open>sublist (lit ''"'' @ lit ''hi'' @ lit ''"'') (responses (lit ''hi'') ! 2)\<close>
    \<open>sublist (lit ''"'' @ lit ''hi'' @ lit ''"'') (responses (lit ''hi'') ! 3)\<close>
    by simp_all
  with a b g show ?thesis
    by simp
qed

lemma step_history_prefix:
  "prefix (conversationHistory s) (conversationHistory (step e s))"
  by (cases e)
     (simp_all add: handleUserMessage_history botReplyCallback_history split: list.split)

lemma run_append: "run (es @ es') s = run es' (run es s)"
  by (simp add: run_def)

lemma run_history_prefix:
  "prefix (conversationHistory s) (conversationHistory (run es s))"
proof (induction es arbitrary: s)
  case Nil
  show ?case by (simp add: run_def)
next
  case (Cons e es)
  have "prefix (conversationHistory s) (conversationHistory (step e s))"
    by (rule step_history_prefix)
  also have "prefix (conversationHistory (step e s)) (conversationHistory (run es (step e s)))"
    by (rule Cons.IH)
  finally show ?case by (simp add: run_def)
qed

text \<open>
  C6. The log only grows at its end. One call of \<open>handleUserMessage\<close> and one run
  of the reply callback each leave the entries already logged in place and in
  order; so does any sequence of events, hence the log after a longer run
  starts with the log after the shorter run, and it is never shorter.
\<close>

theorem log_is_append_only:
  "prefix (conversationHistory s) (conversationHistory (handleUserMessage t s))
   \<and> prefix (conversationHistory s) (conversationHistory (botReplyCallback u r t s))
   \<and> prefix (conversationHistory (run es s)) (conversationHistory (run (es @ es') s))
   \<and> length (conversationHistory (run es s)) \<le> length (conversationHistory (run (es @ es') s))"
proof -
  have "prefix (conversationHistory (run es s)) (conversationHistory (run (es @ es') s))"
    by (simp add: run_append run_history_prefix)
  then show ?thesis
    by (simp add: handleUserMessage_history botReplyCallback_history prefix_length_le)
qed

lemma step_display_count:
  "length (displayArea (step e s)) + length (conversationHistory s) =
     length (displayArea s) + length (conversationHistory (step e s))"
  by (cases e)
     (simp_all add: handleUserMessage_history handleUserMessage_display_length
        botReplyCallback_history botReplyCallback_frame split: list.split)

lemma run_display_count:
  "length (displayArea (run es s)) + length (conversationHistory s) =
     length (displayArea s) + length (conversationHistory (run es s))"
proof (induction es arbitrary: s)
  case Nil
  show ?case by (simp add: run_def)
next
  case (Cons e es)
  from Cons.IH [of "step e s"] step_display_count [of e s]
  show ?case by (simp add: run_def)
qed

lemma handleUserMessage_shown:
  "map (\<lambda>b. take 2 (blockContent b)) (displayArea (handleUserMessage t s)) =
     (if trim (inputValue s) = [] then map (\<lambda>b. take 2 (blockContent b)) (displayArea s)
      else map (\<lambda>b. take 2 (blockContent b)) (displayArea s) @
             [[Element (lit ''strong'') (lit ''user'' @ lit '':''),
               TextNode (lit '' '' @ trim (inputValue s) @ lit '' '')]])"
  by (simp add: handleUserMessage_def appendMessageToDisplay_def Let_def)

lemma botReplyCallback_shown:
  "map (\<lambda>b. take 2 (blockContent b)) (displayArea (botReplyCallback u r t s)) =
     map (\<lambda>b. take 2 (blockContent b)) (displayArea s) @
       [[Element (lit ''strong'') (lit ''bot'' @ lit '':''),
         TextNode (lit '' '' @ ToString (generateBotResponse u r) @ lit '' '')]]"
  by (simp add: botReplyCallback_def appendMessageToDisplay_def Let_def)

lemma step_shows_log:
  assumes "map (\<lambda>b. take 2 (blockContent b)) (displayArea s) =
             pre @ map (\<lambda>e. [Element (lit ''strong'') (role e @ lit '':''),
                               TextNode (lit '' '' @ ToString (message e) @ lit '' '')])
                     (conversationHistory s)"
  shows "map (\<lambda>b. take 2 (blockContent b)) (displayArea (step ev s)) =
             pre @ map (\<lambda>e. [Element (lit ''strong'') (role e @ lit '':''),
                               TextNode (lit '' '' @ ToString (message e) @ lit '' '')])
                     (conversationHistory (step ev s))"
  using assms
  by (cases ev)
     (simp_all add: handleUserMessage_shown handleUserMessage_history
        botReplyCallback_shown botReplyCallback_history split: list.split)

lemma run_shows_log:
  assumes "map (\<lambda>b. take 2 (blockContent b)) (displayArea s) =
             pre @ map (\<lambda>e. [Element (lit ''strong'') (role e @ lit '':''),
                               TextNode (lit '' '' @ ToString (message e) @ lit '' '')])
                     (conversationHistory s)"
  shows "map (\<lambda>b. take 2 (blockContent b)) (displayArea (run es s)) =
             pre @ map (\<lambda>e. [Element (lit ''strong'') (role e @ lit '':''),
                               TextNode (lit '' '' @ ToString (message e) @ lit '' '')])
                     (conversationHistory (run es s))"
  using assms
proof (induction es arbitrary: s)
  case Nil
  then show ?case by (simp add: run_def)
next
  case (Cons ev es)
  from Cons.IH [OF step_shows_log [OF Cons.prems]]
  show ?case by (simp add: run_def)
qed

lemma step_keeps_blocks: "prefix (displayArea s) (displayArea (step ev s))"
  by (cases ev)
     (simp_all add: handleUserMessage_def botReplyCallback_def appendMessageToDisplay_def
        Let_def split: list.split)

lemma run_keeps_blocks: "prefix (displayArea s) (displayArea (run es s))"
proof (induction es arbitrary: s)
  case Nil
  show ?case by (simp add: run_def)
next
  case (Cons ev es)
  have "prefix (displayArea s) (displayArea (step ev s))"
    by (rule step_keeps_blocks)
  also have "prefix (displayArea (step ev s)) (displayArea (run es (step ev s)))"
    by (rule Cons.IH)
  finally show ?case by (simp add: run_def)
qed

lemma initial_display:
  "displayArea (initial v t) =
     [\<lparr>marginBottom = lit ''10px'', padding = lit ''8px'', borderRadius = lit ''4px'',
       backgroundColor = lit ''#f1f8e9'', textAlign = lit ''left'',
       blockContent =
         [Element (lit ''strong'') (lit ''bot:''),
          TextNode (lit '' Welcome to the Chatbot Test Application! Send a message to get started. ''),
          Element (lit ''small'') (lit ''('' @ t @ lit '')'')]\<rparr>]"
  by (simp add: initial_def appendMessageToDisplay_def welcomeText_def lit_def)

text \<open>
  C9. Loading the script renders the welcome message without logging it: the log
  is empty and the display holds exactly one block, styled as a bot message,
  whose label is \<open>bot:\<close> and whose text is the welcome sentence. Every handler
  that logs an entry also appends one block, so after any sequence of events
  the display holds one block more than the log has entries: the welcome block
  is still the first one, and the blocks after it show, in order, the role and
  the message of the log entries.
\<close>

theorem welcome_block_is_not_logged:
  "conversationHistory (initial v t) = []
   \<and> displayArea (initial v t) =
       [\<lparr>marginBottom = lit ''10px'', padding = lit ''8px'', borderRadius = lit ''4px'',
         backgroundColor = lit ''#f1f8e9'', textAlign = lit ''left'',
         blockContent =
           [Element (lit ''strong'') (lit ''bot:''),
            TextNode (lit '' Welcome to the Chatbot Test Application! Send a message to get started. ''),
            Element (lit ''small'') (lit ''('' @ t @ lit '')'')]\<rparr>]
   \<and> length (displayArea (run es (initial v t))) =
       length (conversationHistory (run es (initial v t))) + 1
   \<and> hd (displayArea (run es (initial v t))) = hd (displayArea (initial v t))
   \<and> map (\<lambda>b. take 2 (blockContent b)) (tl (displayArea (run es (initial v t)))) =
       map (\<lambda>e. [Element (lit ''strong'') (role e @ lit '':''),
                  TextNode (lit '' '' @ ToString (message e) @ lit '' '')])
         (conversationHistory (run es (initial v t)))"
proof -
  let ?shown = "\<lambda>b::dom_node list message_block. take 2 (blockContent b)"
  let ?entry = "\<lambda>e. [Element (lit ''strong'') (role e @ lit '':''),
                      TextNode (lit '' '' @ ToString (message e) @ lit '' '')]"
  have h: "conversationHistory (initial v t) = []"
    by (simp add: initial_def appendMessageToDisplay_frame)
  have d: "length (displayArea (initial v t)) = 1"
    by (simp add: initial_display)
  have n: "length (displayArea (run es (initial v t))) =
             length (conversationHistory (run es (initial v t))) + 1"
    using run_display_count [of es "initial v t"] h d by simp
  obtain rest where r: "displayArea (run es (initial v t)) = displayArea (initial v t) @ rest"
    using run_keeps_blocks [of "initial v t" es] by (auto simp: prefix_def)
  obtain w where w: "displayArea (initial v t) = [w]"
    by (simp add: initial_display)
  have first: "hd (displayArea (run es (initial v t))) = hd (displayArea (initial v t))"
    by (simp add: r w)
  have "map ?shown (displayArea (initial v t)) =
          [?shown w] @ map ?entry (conversationHistory (initial v t))"
    by (simp add: h w)
  then have "map ?shown (displayArea (run es (initial v t))) =
          [?shown w] @ map ?entry (conversationHistory (run es (initial v t)))"
    by (rule run_shows_log)
  then have "map ?shown (tl (displayArea (run es (initial v t)))) =
          map ?entry (conversationHistory (run es (initial v t)))"
    by (simp add: r w)
  with h n first show ?thesis
    by (simp add: initial_display)
qed


section \<open>The two copies of the chat widget\<close>

lemmas tokenizer_defs =
  parseFragment_def tokenize_def tokenizerStep_def dataState_def tagOpenState_def
  endTagOpenState_def tagNameState_def beforeAttributeNameState_def attributeNameState_def
  afterAttributeNameState_def beforeAttributeValueState_def
  attributeValueDoubleQuotedState_def afterAttributeValueQuotedState_def emitTag_def
  startAttribute_def finishAttribute_def isHtmlSpace_def isAsciiAlpha_def toAsciiLower_def
  endOfInput_def plainElements_def

text \<open>
  C10. The user types \<open><b onclick="document.getElementById('sendMessageBtn').click()">x</b>\<close>
  and sends it, the reply arrives, the user types \<open>again\<close> and clicks on the
  message block just sent. In script.js the block shows the typed characters as
  text and the click runs nothing: the log holds the message and its reply. In
  the second copy the typed text was parsed as markup, the click runs the
  handler it carries, the handler clicks the send button, and the log holds a
  third entry. The two copies do not keep the same log.
\<close>

theorem typed_markup_sends_a_message:
  \<open>conversationHistory
      (run
        [InputEdited (lit ''<b onclick="document.getElementById('sendMessageBtn').click()">x</b>''),
         SendClicked (lit ''9:00:05 AM''),
         TimerFired (1/2) (lit ''9:00:06 AM''),
         InputEdited (lit ''again''),
         BlockClicked 1 (lit ''9:00:09 AM'')]
        (initial [] (lit ''9:00:00 AM''))) =
     [\<lparr>role = lit ''user'', message = Str (lit ''<b onclick="document.getElementById('sendMessageBtn').click()">x</b>'')\<rparr>,
      \<lparr>role = lit ''bot'',
        message = Str (lit ''Processing your input: "'' @ lit ''<b onclick="document.getElementById('sendMessageBtn').click()">x</b>'' @ lit ''"'')\<rparr>]
   \<and> map_option conversationHistory
      (run_html
        [InputEdited (lit ''<b onclick="document.getElementById('sendMessageBtn').click()">x</b>''),
         SendClicked (lit ''9:00:05 AM''),
         TimerFired (1/2) (lit ''9:00:06 AM''),
         InputEdited (lit ''again''),
         BlockClicked 1 (lit ''9:00:09 AM'')]
        (initial_html [] (lit ''9:00:00 AM''))) =
     Some
      [\<lparr>role = lit ''user'', message = Str (lit ''<b onclick="document.getElementById('sendMessageBtn').click()">x</b>'')\<rparr>,
       \<lparr>role = lit ''bot'',
         message = Str (lit ''Processing your input: "'' @ lit ''<b onclick="document.getElementById('sendMessageBtn').click()">x</b>'' @ lit ''"'')\<rparr>,
       \<lparr>role = lit ''user'', message = Str (lit ''again'')\<rparr>]\<close>
  by (simp add: run_def initial_def initial_html_def handleUserMessage_def
        handleUserMessage_html_def botReplyCallback_def botReplyCallback_html_def
        generateBotResponse_def responses_def
        appendMessageToDisplay_def appendMessageToDisplay_html_def
        blockClicked_def runHandler_def clickSendStatement_def clickHandlers_def
        trim_def isWhiteSpace_def welcomeText_def lit_def Let_def tokenizer_defs)

section \<open>Properties of the report form\<close>

lemma settle_frame:
  "requests (settle outcome s) = requests s"
  "alerts (settle outcome s) = alerts s"
  "questionBox (settle outcome s) = questionBox s"
  "buttonDisabled (settle outcome s) = False"
  by (simp_all add: settle_def tryBlock_def Let_def
        split: fetch_result.split response_json.split option.split)

lemma clickHandler_enables_button:
  "trim (questionBox s) \<noteq> [] \<Longrightarrow> buttonDisabled (clickHandler outcome s) = False"
  by (simp add: clickHandler_def settle_frame)

lemma clickHandler_not_ok:
  "trim (questionBox s) \<noteq> [] \<Longrightarrow> \<not> ok response \<Longrightarrow>
     statusMessage (clickHandler (FetchResolved response) s) =
       lit ''Error: Error: '' @ statusText response"
  by (simp add: clickHandler_def settle_def tryBlock_def lit_def)

lemma clickHandler_network_failure:
  "trim (questionBox s) \<noteq> [] \<Longrightarrow>
     statusMessage (clickHandler (FetchRejected msg) s) = lit ''Error: '' @ msg"
  by (simp add: clickHandler_def settle_def tryBlock_def)

text \<open>
  C1. A response with status 500 and status text \<open>Internal Server Error\<close>, received
  for the question \<open>q\<close>: the handler throws an error whose message is
  \<open>Error: Internal Server Error\<close> and the \<open>catch\<close> clause puts \<open>Error: \<close> in front of
  that message once more, so the status region reads
  \<open>Error: Error: Internal Server Error\<close>, which is not \<open>Error: \<close> followed by the status
  text. The button is enabled at the end.
\<close>

theorem failed_status_is_prefixed_twice:
  "statusMessage
     (clickHandler
        (FetchResolved \<lparr>status = 500, statusText = lit ''Internal Server Error'',
                        json = JsonRejected []\<rparr>)
        \<lparr>statusMessage = [], result = [], buttonDisabled = False,
          questionBox = lit ''q'', alerts = [], requests = []\<rparr>)
     = lit ''Error: Error: Internal Server Error''
   \<and> lit ''Error: Error: Internal Server Error'' \<noteq> lit ''Error: '' @ lit ''Internal Server Error''
   \<and> buttonDisabled
     (clickHandler
        (FetchResolved \<lparr>status = 500, statusText = lit ''Internal Server Error'',
                        json = JsonRejected []\<rparr>)
        \<lparr>statusMessage = [], result = [], buttonDisabled = False,
          questionBox = lit ''q'', alerts = [], requests = []\<rparr>) = False"
  by (simp add: clickHandler_def settle_def tryBlock_def sendRequest_def ok_def
        trim_def isWhiteSpace_def lit_def Let_def)

text \<open>
  C3. When the trimmed question is empty the handler hands nothing to \<open>fetch\<close>,
  shows one alert, and leaves the status region, the result region and the
  button as they were.
\<close>

theorem empty_question_is_rejected:
  assumes "trim (questionBox s) = []"
  shows "requests (clickHandler outcome s) = requests s
       \<and> alerts (clickHandler outcome s) = alerts s @ [lit ''Please enter a research question.'']
       \<and> statusMessage (clickHandler outcome s) = statusMessage s
       \<and> result (clickHandler outcome s) = result s
       \<and> buttonDisabled (clickHandler outcome s) = buttonDisabled s"
  using assms by (simp add: clickHandler_def)

theorem empty_question_is_rejected_witness:
  "trim (questionBox \<lparr>statusMessage = lit ''idle'', result = lit ''old'', buttonDisabled = False,
          questionBox = [0x20, 0x0A], alerts = [], requests = []\<rparr>) = []
   \<and> requests (clickHandler (FetchRejected (lit ''Failed to fetch''))
        \<lparr>statusMessage = lit ''idle'', result = lit ''old'', buttonDisabled = False,
          questionBox = [0x20, 0x0A], alerts = [], requests = []\<rparr>) = []
   \<and> alerts (clickHandler (FetchRejected (lit ''Failed to fetch''))
        \<lparr>statusMessage = lit ''idle'', result = lit ''old'', buttonDisabled = False,
          questionBox = [0x20, 0x0A], alerts = [], requests = []\<rparr>) =
       [lit ''Please enter a research question.'']
   \<and> statusMessage (clickHandler (FetchRejected (lit ''Failed to fetch''))
        \<lparr>statusMessage = lit ''idle'', result = lit ''old'', buttonDisabled = False,
          questionBox = [0x20, 0x0A], alerts = [], requests = []\<rparr>) = lit ''idle''"
proof -
  have e: "trim (questionBox \<lparr>statusMessage = lit ''idle'', result = lit ''old'',
          buttonDisabled = False, questionBox = [0x20, 0x0A], alerts = [], requests = []\<rparr>) = []"
    by (simp add: trim_def isWhiteSpace_def)
  from empty_question_is_rejected [OF e, of "FetchRejected (lit ''Failed to fetch'')"] e
  show ?thesis by simp
qed

text \<open>
  C8. When the trimmed question \<open>T\<close> is not empty the handler hands exactly one
  request to \<open>fetch\<close>, however the request settles: a POST to the fixed address,
  with the single header \<open>Content-Type: application/json\<close> and the body
  \<open>JSON.stringify({question: T})\<close>.
\<close>

theorem question_is_posted_once:
  assumes "trim (questionBox s) \<noteq> []"
  shows "requests (clickHandler outcome s) =
           requests s @
             [\<lparr> url = API_ENDPOINT,
                http_method = lit ''POST'',
                headers = [(lit ''Content-Type'', lit ''application/json'')],
                body = JSON_stringify [(lit ''question'', trim (questionBox s))] \<rparr>]"
  using assms by (simp add: clickHandler_def settle_frame sendRequest_def)

theorem question_is_posted_once_witness:
  \<open>trim (questionBox \<lparr>statusMessage = [], result = [], buttonDisabled = False,
          questionBox = lit '' why? '', alerts = [], requests = []\<rparr>) \<noteq> []
   \<and> requests (clickHandler (FetchRejected (lit ''Failed to fetch''))
        \<lparr>statusMessage = [], result = [], buttonDisabled = False,
          questionBox = lit '' why? '', alerts = [], requests = []\<rparr>) =
       [\<lparr> url = lit ''https://apim-multiagent-research.azure-api.net/research'',
          http_method = lit ''POST'',
          headers = [(lit ''Content-Type'', lit ''application/json'')],
          body = lit ''{"question":"why?"}'' \<rparr>]\<close>
proof -
  have t: "trim (questionBox \<lparr>statusMessage = [], result = [], buttonDisabled = False,
          questionBox = lit '' why? '', alerts = [], requests = []\<rparr>) = lit ''why?''"
    by (simp add: trim_def isWhiteSpace_def lit_def)
  have n: "lit ''why?'' \<noteq> []"
    by (simp add: lit_def)
  have b: \<open>JSON_stringify [(lit ''question'', lit ''why?'')] = lit ''{"question":"why?"}''\<close>
    by (simp add: JSON_stringify_def QuoteJSONString_def quoteUnit_def lit_def
          isLeadingSurrogate_def isTrailingSurrogate_def)
  from question_is_posted_once [of _ "FetchRejected (lit ''Failed to fetch'')"] t n b
  show ?thesis by (simp add: API_ENDPOINT_def)
qed

lemmas clickHandler_defs =
  clickHandler_def settle_def tryBlock_def sendRequest_def ok_def resultMarkup_def
  trim_def isWhiteSpace_def

text \<open>
  At the specification's own example, \<open>Q\<close> and \<open>U\<close>, the panel holds one link, to
  \<open>U\<close>, and its text shows \<open>Q\<close>.
\<close>

lemma spec_example_is_rendered:
  \<open>map_option linkTargets
      (parseFragment (result (clickHandler
         (FetchResolved \<lparr>status = 200, statusText = lit ''OK'',
            json = JsonData (Str (lit ''Q'')) (Str (lit ''U''))\<rparr>)
         \<lparr>statusMessage = [], result = [], buttonDisabled = False,
           questionBox = lit ''q'', alerts = [], requests = []\<rparr>))) = Some [lit ''U'']
   \<and> map_option textContent
      (parseFragment (result (clickHandler
         (FetchResolved \<lparr>status = 200, statusText = lit ''OK'',
            json = JsonData (Str (lit ''Q'')) (Str (lit ''U''))\<rparr>)
         \<lparr>statusMessage = [], result = [], buttonDisabled = False,
           questionBox = lit ''q'', alerts = [], requests = []\<rparr>))) =
     Some ([0x0A] @ lit ''            Research Question: Q'' @ [0x0A]
           @ lit ''            Download Report: '' @ [0x0A] @ lit ''               Download'')\<close>
  by (simp add: clickHandler_defs linkTargets_def lit_def Let_def tokenizer_defs)

text \<open>
  C7. A response with status 200 whose JSON has \<open><i>Q</i>\<close> as \<open>question\<close> and
  \<open>x" onclick="alert(1)\<close> as \<open>document_url\<close>: both are interpolated into the
  markup as they are. The quote inside the address closes the \<open>href\<close> attribute,
  so the link of the panel points to \<open>x\<close>, not to the address; the tags of the
  question become an element, so the text of the panel does not contain the
  question.
\<close>

theorem unescaped_response_breaks_the_link:
  \<open>map_option linkTargets
      (parseFragment (result (clickHandler
         (FetchResolved \<lparr>status = 200, statusText = lit ''OK'',
            json = JsonData (Str (lit ''<i>Q</i>'')) (Str (lit ''x" onclick="alert(1)''))\<rparr>)
         \<lparr>statusMessage = [], result = [], buttonDisabled = False,
           questionBox = lit ''q'', alerts = [], requests = []\<rparr>))) = Some [lit ''x'']
   \<and> lit ''x'' \<noteq> lit ''x" onclick="alert(1)''
   \<and> map_option textContent
      (parseFragment (result (clickHandler
         (FetchResolved \<lparr>status = 200, statusText = lit ''OK'',
            json = JsonData (Str (lit ''<i>Q</i>'')) (Str (lit ''x" onclick="alert(1)''))\<rparr>)
         \<lparr>statusMessage = [], result = [], buttonDisabled = False,
           questionBox = lit ''q'', alerts = [], requests = []\<rparr>))) =
     Some ([0x0A] @ lit ''            Research Question: Q'' @ [0x0A]
           @ lit ''            Download Report: '' @ [0x0A] @ lit ''               Download'')
   \<and> \<not> sublist (lit ''<i>Q</i>'')
        ([0x0A] @ lit ''            Research Question: Q'' @ [0x0A]
           @ lit ''            Download Report: '' @ [0x0A] @ lit ''               Download'')\<close>
proof -
  let ?shown = "[0x0A] @ lit ''            Research Question: Q'' @ [0x0A]
           @ lit ''            Download Report: '' @ [0x0A] @ lit ''               Download''"
  have "\<not> set (lit ''<i>Q</i>'') \<subseteq> set ?shown"
    by (simp add: lit_def)
  then have n: "\<not> sublist (lit ''<i>Q</i>'') ?shown"
    using set_mono_sublist by blast
  show ?thesis
    using n by (simp add: clickHandler_defs linkTargets_def lit_def Let_def tokenizer_defs)
qed


end
